theory Spec2Isabelle
  imports Complex_Main "HOL-Library.Multiset"
begin

section \<open>Values exchanged with the outside\<close>

text \<open>
  A WebSocket object is compared by identity (\<open>list.remove\<close>, the dictionary of live
  connections), so a connection is modelled by a handle.
\<close>

type_synonym ws = nat

text \<open>
  What \<open>json.loads\<close> returns and \<open>json.dumps\<close> takes: \<open>None\<close>, a bool, an int, a
  float, a string, a list, or a dict (its items in order, keys distinct). The type of
  floats is a parameter: the program only converts, stores and forwards them.
\<close>

datatype 'f json =
    JNull
  | JBool bool
  | JInt int
  | JFloat 'f
  | JStr string
  | JArr "'f json list"
  | JObj "(string \<times> 'f json) list"

text \<open>The exceptions that can reach the handlers of \<open>main.py\<close>.\<close>

datatype exn =
    JSONDecodeError
  | AttributeError
  | TypeError
  | ValueError
  | OverflowError
  | WebSocketDisconnect
  | HTTPException nat

text \<open>The dict \<open>{"lat": lat, "lon": lon, "ts": ts}\<close> kept in memory and returned by the query.\<close>

record 'f pos =
  lat :: 'f
  lon :: 'f
  ts :: int

text \<open>The rows of the tables \<open>users\<close> and \<open>locations\<close> (the key \<open>id\<close> is never read).\<close>

record user =
  u_username :: string
  u_hashed_password :: string
  u_is_admin :: int

record 'f location =
  l_username :: string
  l_lat :: 'f
  l_lon :: 'f
  l_timestamp :: int

text \<open>
  The library calls the program relies on, taken as parameters:
  \<^item> \<open>json_loads\<close>: \<open>json.loads\<close>, \<open>None\<close> when it raises \<open>JSONDecodeError\<close>;
  \<^item> \<open>str_to_float\<close>: \<open>float(s)\<close> on a string, \<open>None\<close> when it raises \<open>ValueError\<close>;
  \<^item> \<open>int_to_float\<close>: \<open>float(n)\<close> on an int, \<open>None\<close> when it raises \<open>OverflowError\<close>;
  \<^item> \<open>jwt_decode\<close>: \<open>jwt.decode(token, SECRET_KEY, algorithms=[ALGORITHM])\<close>, the claims of
    the token, \<open>None\<close> when it raises \<open>JWTError\<close> (bad signature, expired, malformed);
  \<^item> \<open>order_by_timestamp_desc\<close>: the engine's \<open>ORDER BY timestamp DESC\<close>.
\<close>

record 'f env =
  json_loads :: "string \<Rightarrow> 'f json option"
  str_to_float :: "string \<Rightarrow> 'f option"
  int_to_float :: "int \<Rightarrow> 'f option"
  jwt_decode :: "string \<Rightarrow> (string \<times> 'f json) list option"
  order_by_timestamp_desc :: "'f location list \<Rightarrow> 'f location list"

text \<open>What a handler does to a connection: the calls \<open>accept\<close>, \<open>close(code)\<close>, \<open>send_text\<close>.
  A \<open>SendText\<close> is the call, whether or not it then raises. The text sent is
  \<open>json.dumps\<close> of the value shown. The first message to an admin carries the two
  dictionaries of the manager.\<close>

datatype 'f effect =
    Accept ws
  | Close ws nat
  | SendText ws "'f json"
  | SendInitial ws "string \<rightharpoonup> 'f pos" "string \<rightharpoonup> 'f pos list"

section \<open>The state of the process\<close>

text \<open>
  The three dictionaries of \<open>ConnectionManager\<close>, the global list \<open>admin_connections\<close>,
  and the two tables. \<open>db.add\<close> and \<open>db.commit\<close> are taken to succeed.
\<close>

record 'f world =
  active_connections :: "string \<rightharpoonup> ws"
  latest :: "string \<rightharpoonup> 'f pos"
  history :: "string \<rightharpoonup> 'f pos list"
  admin_connections :: "ws list"
  users :: "user list"
  locations :: "'f location list"

definition startup :: "user list \<Rightarrow> 'f location list \<Rightarrow> 'f world" where
  "startup us ls =
     \<lparr>active_connections = Map.empty, latest = Map.empty, history = Map.empty,
      admin_connections = [], users = us, locations = ls\<rparr>"

text \<open>\<open>manager.history.get(username, [])\<close>: the buffer of an identity, empty when it has none.\<close>

definition history_of :: "'f world \<Rightarrow> string \<Rightarrow> 'f pos list" where
  "history_of w username = (case history w username of None \<Rightarrow> [] | Some h \<Rightarrow> h)"

section \<open>Token verification\<close>

text \<open>
  \<open>verify_token\<close>: \<open>payload.get("sub")\<close> is \<open>None\<close> when the claim is absent or null, and
  then \<open>HTTPException(401)\<close> is raised; a \<open>JWTError\<close> becomes the same exception. A
  \<open>sub\<close> that is not a string never leaves \<open>jwt.decode\<close> (it raises a \<open>JWTError\<close>).
\<close>

definition verify_token :: "'f env \<Rightarrow> string \<Rightarrow> exn + string" where
  "verify_token lib token =
     (case jwt_decode lib token of
        None \<Rightarrow> Inl (HTTPException 401)
      | Some payload \<Rightarrow>
          (case map_of payload ''sub'' of
             None \<Rightarrow> Inl (HTTPException 401)
           | Some JNull \<Rightarrow> Inl (HTTPException 401)
           | Some (JStr username) \<Rightarrow> Inr username
           | Some _ \<Rightarrow> Inl (HTTPException 401)))"

section \<open>The connection manager\<close>

definition connect :: "string \<Rightarrow> ws \<Rightarrow> 'f world \<Rightarrow> 'f world" where
  "connect username websocket w =
     w\<lparr>active_connections := (active_connections w)(username \<mapsto> websocket)\<rparr>"

definition disconnect :: "string \<Rightarrow> 'f world \<Rightarrow> 'f world" where
  "disconnect username w =
     (if username \<in> dom (active_connections w)
      then w\<lparr>active_connections := (active_connections w)(username := None)\<rparr>
      else w)"

section \<open>One iteration of the loop of \<open>websocket_user\<close>\<close>

text \<open>\<open>obj.get(k)\<close>: a dict gives the value or \<open>None\<close>; any other value has no \<open>get\<close>.\<close>

definition dict_get :: "'f json \<Rightarrow> string \<Rightarrow> exn + 'f json" where
  "dict_get obj k =
     (case obj of
        JObj kvs \<Rightarrow> Inr (case map_of kvs k of None \<Rightarrow> JNull | Some v \<Rightarrow> v)
      | _ \<Rightarrow> Inl AttributeError)"

text \<open>\<open>float(v)\<close>: a bool is an int in Python; \<open>None\<close>, a list and a dict raise \<open>TypeError\<close>.\<close>

fun py_float :: "'f env \<Rightarrow> 'f json \<Rightarrow> exn + 'f" where
  "py_float lib JNull = Inl TypeError"
| "py_float lib (JBool b) =
     (case int_to_float lib (if b then 1 else 0) of
        None \<Rightarrow> Inl OverflowError | Some x \<Rightarrow> Inr x)"
| "py_float lib (JInt n) =
     (case int_to_float lib n of None \<Rightarrow> Inl OverflowError | Some x \<Rightarrow> Inr x)"
| "py_float lib (JFloat x) = Inr x"
| "py_float lib (JStr s) =
     (case str_to_float lib s of None \<Rightarrow> Inl ValueError | Some x \<Rightarrow> Inr x)"
| "py_float lib (JArr vs) = Inl TypeError"
| "py_float lib (JObj kvs) = Inl TypeError"

text \<open>Lines 157 to 159: \<open>json.loads(data)\<close>, then \<open>float(obj.get("lat"))\<close> and
  \<open>float(obj.get("lon"))\<close>.\<close>

definition read_position :: "'f env \<Rightarrow> string \<Rightarrow> exn + ('f \<times> 'f)" where
  "read_position lib data =
     (case json_loads lib data of
        None \<Rightarrow> Inl JSONDecodeError
      | Some obj \<Rightarrow>
          (case dict_get obj ''lat'' of
             Inl e \<Rightarrow> Inl e
           | Inr v1 \<Rightarrow>
               (case py_float lib v1 of
                  Inl e \<Rightarrow> Inl e
                | Inr a \<Rightarrow>
                    (case dict_get obj ''lon'' of
                       Inl e \<Rightarrow> Inl e
                     | Inr v2 \<Rightarrow>
                         (case py_float lib v2 of
                            Inl e \<Rightarrow> Inl e
                          | Inr b \<Rightarrow> Inr (a, b))))))"

text \<open>Lines 161 to 164: overwrite \<open>latest\<close>, append to the buffer, and \<open>pop(0)\<close> once
  when the buffer has more than 200 entries.\<close>

definition record_sample :: "string \<Rightarrow> 'f pos \<Rightarrow> 'f world \<Rightarrow> 'f world" where
  "record_sample username s w =
     (let h = history_of w username @ [s];
          h' = (if length h > 200 then tl h else h)
      in w\<lparr>latest := (latest w)(username \<mapsto> s),
           history := (history w)(username \<mapsto> h')\<rparr>)"

text \<open>Lines 165 to 169: one row added to \<open>locations\<close>.\<close>

definition add_location :: "string \<Rightarrow> 'f \<Rightarrow> 'f \<Rightarrow> int \<Rightarrow> 'f world \<Rightarrow> 'f world" where
  "add_location username a b t w =
     w\<lparr>locations := locations w @
        [\<lparr>l_username = username, l_lat = a, l_lon = b, l_timestamp = t\<rparr>]\<rparr>"

text \<open>Line 170: the dict that is sent to the admins.\<close>

definition update_payload :: "string \<Rightarrow> 'f \<Rightarrow> 'f \<Rightarrow> int \<Rightarrow> 'f json" where
  "update_payload username a b t =
     JObj [(''type'', JStr ''update''), (''username'', JStr username),
           (''lat'', JFloat a), (''lon'', JFloat b), (''ts'', JInt t)]"

text \<open>
  Lines 171 to 178: the loop runs over a copy of the list; \<open>ok admin_ws\<close> tells whether
  \<open>send_text\<close> returns for that connection. When it raises, \<open>remove\<close> deletes the first
  equal entry of the live list (and its own failure is swallowed).
\<close>

fun broadcast ::
  "(ws \<Rightarrow> bool) \<Rightarrow> 'f json \<Rightarrow> ws list \<Rightarrow> ws list \<Rightarrow> ws list \<times> 'f effect list" where
  "broadcast ok msg [] admins = (admins, [])"
| "broadcast ok msg (admin_ws # rest) admins =
     (let admins' = (if ok admin_ws then admins else remove1 admin_ws admins);
          (final, out) = broadcast ok msg rest admins'
      in (final, SendText admin_ws msg # out))"

text \<open>The body of the loop after \<open>receive_text\<close> returned \<open>data\<close>, at time \<open>now\<close>.\<close>

definition ingest ::
  "'f env \<Rightarrow> string \<Rightarrow> string \<Rightarrow> int \<Rightarrow> (ws \<Rightarrow> bool) \<Rightarrow> 'f world
     \<Rightarrow> exn + ('f world \<times> 'f effect list)" where
  "ingest lib username data now ok w =
     (case read_position lib data of
        Inl e \<Rightarrow> Inl e
      | Inr (a, b) \<Rightarrow>
          (let w1 = record_sample username \<lparr>lat = a, lon = b, ts = now\<rparr> w;
               w2 = add_location username a b now w1;
               payload = update_payload username a b now;
               (admins, out) =
                 broadcast ok payload (admin_connections w2) (admin_connections w2)
           in Inr (w2\<lparr>admin_connections := admins\<rparr>, out)))"

section \<open>The handler \<open>websocket_user\<close>\<close>

text \<open>
  What \<open>receive_text\<close> brings: a text, with the clock and the fate of the sends of that
  iteration, or an exception (\<open>WebSocketDisconnect\<close> or any other).
\<close>

datatype event =
    Message string int "ws \<Rightarrow> bool"
  | ReceiveError

datatype phase = Streaming | Closed

text \<open>
  The \<open>while True\<close> loop over the events that arrive. Both handlers of the
  \<open>try\<close> call \<open>manager.disconnect\<close>, and the events after that are never read. With no
  event left the handler is suspended in \<open>receive_text\<close>.
\<close>

fun user_loop ::
  "'f env \<Rightarrow> string \<Rightarrow> event list \<Rightarrow> 'f world \<Rightarrow> phase \<times> 'f world \<times> 'f effect list" where
  "user_loop lib username [] w = (Streaming, w, [])"
| "user_loop lib username (ReceiveError # evs) w = (Closed, disconnect username w, [])"
| "user_loop lib username (Message data now ok # evs) w =
     (case ingest lib username data now ok w of
        Inl e \<Rightarrow> (Closed, disconnect username w, [])
      | Inr (w', out) \<Rightarrow>
          (let (p, w'', out') = user_loop lib username evs w'
           in (p, w'', out @ out')))"

definition websocket_user ::
  "'f env \<Rightarrow> ws \<Rightarrow> string \<Rightarrow> event list \<Rightarrow> 'f world \<Rightarrow> phase \<times> 'f world \<times> 'f effect list" where
  "websocket_user lib websocket token evs w =
     (case verify_token lib token of
        Inl e \<Rightarrow> (Closed, w, [Close websocket 1008])
      | Inr username \<Rightarrow>
          (let (p, w', out) = user_loop lib username evs (connect username websocket w)
           in (p, w', Accept websocket # out)))"

section \<open>The handler \<open>websocket_admin\<close>\<close>

datatype admin_event = AdminText string | AdminDisconnect

fun admin_loop :: "ws \<Rightarrow> admin_event list \<Rightarrow> 'f world \<Rightarrow> 'f world" where
  "admin_loop websocket [] w = w"
| "admin_loop websocket (AdminText data # evs) w = admin_loop websocket evs w"
| "admin_loop websocket (AdminDisconnect # evs) w =
     w\<lparr>admin_connections := remove1 websocket (admin_connections w)\<rparr>"

definition websocket_admin ::
  "'f env \<Rightarrow> ws \<Rightarrow> string \<Rightarrow> admin_event list \<Rightarrow> 'f world \<Rightarrow> 'f world \<times> 'f effect list" where
  "websocket_admin lib websocket token evs w =
     (case verify_token lib token of
        Inl e \<Rightarrow> (w, [Close websocket 1008])
      | Inr username \<Rightarrow>
          (case find (\<lambda>u. u_username u = username) (users w) of
             None \<Rightarrow> (w, [Close websocket 1008])
           | Some usr \<Rightarrow>
               if u_is_admin usr = 0 then (w, [Close websocket 1008])
               else
                 (let w1 = w\<lparr>admin_connections := admin_connections w @ [websocket]\<rparr>
                  in (admin_loop websocket evs w1,
                      [Accept websocket, SendInitial websocket (latest w1) (history w1)]))))"

section \<open>The query \<open>get_history\<close>\<close>

definition get_history :: "'f env \<Rightarrow> string \<Rightarrow> string \<Rightarrow> 'f world \<Rightarrow> exn + 'f pos list" where
  "get_history lib username token w =
     (case verify_token lib token of
        Inl e \<Rightarrow> Inl e
      | Inr caller \<Rightarrow>
          Inr (map (\<lambda>r. \<lparr>lat = l_lat r, lon = l_lon r, ts = l_timestamp r\<rparr>)
                 (take 200 (order_by_timestamp_desc lib
                    (filter (\<lambda>r. l_username r = username) (locations w))))))"

section \<open>Vocabulary of the properties\<close>

text \<open>The sample an event leads to: the one built at lines 158 to 161 when the text is
  accepted, none when the iteration raises.\<close>

definition sample_of :: "'f env \<Rightarrow> event \<Rightarrow> 'f pos option" where
  "sample_of lib ev =
     (case ev of
        ReceiveError \<Rightarrow> None
      | Message data now ok \<Rightarrow>
          (case read_position lib data of
             Inl e \<Rightarrow> None
           | Inr (a, b) \<Rightarrow> Some \<lparr>lat = a, lon = b, ts = now\<rparr>))"

definition samples :: "'f env \<Rightarrow> event list \<Rightarrow> 'f pos list" where
  "samples lib evs = List.map_filter (sample_of lib) evs"

text \<open>
  Handlers of several connections run as coroutines of one thread. Between
  \<open>receive_text\<close> and the first \<open>send_text\<close> an iteration has no suspension point, so a
  run of the process is a sequence of events, each taken by the loop of the identity it
  arrives for. (Sends of two broadcasts may interleave; they touch \<open>admin_connections\<close>
  only.)
\<close>

fun run_schedule :: "'f env \<Rightarrow> (string \<times> event) list \<Rightarrow> 'f world \<Rightarrow> 'f world" where
  "run_schedule lib [] w = w"
| "run_schedule lib ((username, ev) # rest) w =
     run_schedule lib rest (fst (snd (user_loop lib username [ev] w)))"

definition samples_for :: "'f env \<Rightarrow> string \<Rightarrow> (string \<times> event) list \<Rightarrow> 'f pos list" where
  "samples_for lib username sched =
     List.map_filter (\<lambda>(v, ev). if v = username then sample_of lib ev else None) sched"



section \<open>A concrete environment for the examples\<close>

definition demo_loads :: "string \<Rightarrow> real json option" where
  \<open>demo_loads s =
     (if s = ''{"lat": 37.1, "lon": -122.2}''
        then Some (JObj [(''lat'', JFloat 37.1), (''lon'', JFloat (- 122.2))])
      else if s = ''{"lat": 40, "lon": 3.5}''
        then Some (JObj [(''lat'', JInt 40), (''lon'', JFloat 3.5)])
      else if s = ''{"lat": "37.1", "lon": "-122.2"}''
        then Some (JObj [(''lat'', JStr ''37.1''), (''lon'', JStr ''-122.2'')])
      else if s = ''{"lat": "north", "lon": 1}''
        then Some (JObj [(''lat'', JStr ''north''), (''lon'', JInt 1)])
      else if s = ''{"lat": true, "lon": false}''
        then Some (JObj [(''lat'', JBool True), (''lon'', JBool False)])
      else if s = ''{"lon": 1}''
        then Some (JObj [(''lon'', JInt 1)])
      else if s = ''[37.1, -122.2]''
        then Some (JArr [JFloat 37.1, JFloat (- 122.2)])
      else None)\<close>

definition demo_float :: "string \<Rightarrow> real option" where
  "demo_float s =
     (if s = ''37.1'' then Some 37.1
      else if s = ''-122.2'' then Some (- 122.2)
      else None)"

definition demo_decode :: "string \<Rightarrow> (string \<times> real json) list option" where
  "demo_decode token =
     (if token = ''token-u1''
        then Some [(''sub'', JStr ''u1''), (''is_admin'', JInt 0), (''exp'', JInt 1700086400)]
      else if token = ''token-admin1''
        then Some [(''sub'', JStr ''admin1''), (''is_admin'', JInt 1), (''exp'', JInt 1700086400)]
      else if token = ''token-ghost''
        then Some [(''sub'', JStr ''ghost''), (''is_admin'', JInt 1), (''exp'', JInt 1700086400)]
      else if token = ''token-nosub''
        then Some [(''is_admin'', JInt 1), (''exp'', JInt 1700086400)]
      else None)"

definition demo_order :: "real location list \<Rightarrow> real location list" where
  "demo_order rs = rev (sort_key l_timestamp rs)"

definition demo_env :: "real env" where
  "demo_env =
     \<lparr>json_loads = demo_loads, str_to_float = demo_float,
      int_to_float = (\<lambda>n. Some (of_int n)), jwt_decode = demo_decode,
      order_by_timestamp_desc = demo_order\<rparr>"

definition demo_users :: "user list" where
  "demo_users =
     [\<lparr>u_username = ''admin1'', u_hashed_password = ''h0'', u_is_admin = 1\<rparr>,
      \<lparr>u_username = ''u1'', u_hashed_password = ''h1'', u_is_admin = 0\<rparr>]"

definition always :: "ws \<Rightarrow> bool" where
  "always x = True"

definition all_but_8 :: "ws \<Rightarrow> bool" where
  "all_but_8 x = (x \<noteq> 8)"

section \<open>The history buffer\<close>

lemma history_of_record_sample:
  "history_of (record_sample u s w) u =
     (if length (history_of w u) \<ge> 200 then tl (history_of w u @ [s]) else history_of w u @ [s])"
  by (simp add: record_sample_def history_of_def Let_def)

lemma history_of_record_sample_other:
  "v \<noteq> u \<Longrightarrow> history_of (record_sample u s w) v = history_of w v"
  by (simp add: record_sample_def history_of_def Let_def)

lemma broadcast_snd: "snd (broadcast ok msg ys xs) = map (\<lambda>a. SendText a msg) ys"
  by (induction ys arbitrary: xs) (simp_all add: Let_def case_prod_unfold)

lemma ingest_valid:
  "read_position lib data = Inr (a, b) \<Longrightarrow>
   \<exists>w'. ingest lib u data now ok w =
          Inr (w', map (\<lambda>x. SendText x (update_payload u a b now)) (admin_connections w)) \<and>
        history w' = history (record_sample u \<lparr>lat = a, lon = b, ts = now\<rparr> w) \<and>
        latest w' = latest (record_sample u \<lparr>lat = a, lon = b, ts = now\<rparr> w) \<and>
        active_connections w' = active_connections w \<and>
        users w' = users w \<and>
        locations w' = locations w @ [\<lparr>l_username = u, l_lat = a, l_lon = b, l_timestamp = now\<rparr>]"
  using broadcast_snd[of ok "update_payload u a b now" "admin_connections w" "admin_connections w"]
  by (auto simp: ingest_def Let_def record_sample_def add_location_def split: prod.splits)

lemma last_200_step:
  assumes "length h \<le> 200"
  shows "(let xs = (if length h \<ge> 200 then tl (h @ [s]) else h @ [s]) @ rest
          in drop (length xs - 200) xs) =
         (let xs = h @ s # rest in drop (length xs - 200) xs)"
proof (cases "length h = 200")
  case True
  then have "h \<noteq> []" by auto
  then obtain x h' where h: "h = x # h'" by (cases h) auto
  with True have "length h' = 199" by simp
  then show ?thesis using True h by (simp add: Let_def)
next
  case False
  with assms show ?thesis by (simp add: Let_def)
qed

lemma user_loop_history:
  "list_all (\<lambda>ev. sample_of lib ev \<noteq> None) evs \<Longrightarrow> length (history_of w u) \<le> 200 \<Longrightarrow>
   history_of (fst (snd (user_loop lib u evs w))) u =
     (let xs = history_of w u @ samples lib evs in drop (length xs - 200) xs)"
proof (induction evs arbitrary: w)
  case Nil
  then show ?case by (simp add: samples_def List.map_filter_simps Let_def)
next
  case (Cons ev evs)
  from Cons.prems(1) obtain data now ok a b where
    ev: "ev = Message data now ok" and rp: "read_position lib data = Inr (a, b)"
    by (cases ev) (auto simp: sample_of_def split: sum.splits)
  let ?s = "\<lparr>lat = a, lon = b, ts = now\<rparr>"
  from ingest_valid[OF rp, of u now ok w] obtain w' out where
    ing: "ingest lib u data now ok w = Inr (w', out)" and
    h: "history w' = history (record_sample u ?s w)" by blast
  have hw': "history_of w' u =
      (if length (history_of w u) \<ge> 200 then tl (history_of w u @ [?s]) else history_of w u @ [?s])"
    using h history_of_record_sample[of u ?s w] by (simp add: history_of_def)
  have len: "length (history_of w' u) \<le> 200"
    using Cons.prems(2) by (simp add: hw')
  have valid: "list_all (\<lambda>ev. sample_of lib ev \<noteq> None) evs" using Cons.prems(1) by simp
  have sm: "samples lib (ev # evs) = ?s # samples lib evs"
    by (simp add: samples_def List.map_filter_simps sample_of_def ev rp)
  have "history_of (fst (snd (user_loop lib u (ev # evs) w))) u =
        history_of (fst (snd (user_loop lib u evs w'))) u"
    by (simp add: ev ing split: prod.splits)
  also have "\<dots> = (let xs = history_of w' u @ samples lib evs in drop (length xs - 200) xs)"
    by (rule Cons.IH[OF valid len])
  also have "\<dots> = (let xs = history_of w u @ ?s # samples lib evs in drop (length xs - 200) xs)"
    unfolding hw' by (rule last_200_step[OF Cons.prems(2)])
  finally show ?case by (simp add: sm)
qed

text \<open>
  C1. A connection of an identity with an empty buffer that receives K texts, each
  accepted, leaves a buffer of \<open>min K 200\<close> samples: the last \<open>min K 200\<close> of
  them, in the order of arrival.
\<close>

theorem history_buffer_keeps_last_200:
  assumes "verify_token lib token = Inr username"
      and "history_of w username = []"
      and "list_all (\<lambda>ev. sample_of lib ev \<noteq> None) evs"
  shows "length (history_of (fst (snd (websocket_user lib websocket token evs w))) username)
           = min (length evs) 200 \<and>
         history_of (fst (snd (websocket_user lib websocket token evs w))) username
           = drop (length evs - min (length evs) 200) (samples lib evs)"
proof -
  have c: "history_of (connect username websocket w) username = []"
    using assms(2) by (simp add: connect_def history_of_def)
  have n: "length (samples lib evs) = length evs"
    using assms(3) by (induction evs) (auto simp: samples_def List.map_filter_simps split: option.splits)
  have "history_of (fst (snd (websocket_user lib websocket token evs w))) username =
        history_of (fst (snd (user_loop lib username evs (connect username websocket w)))) username"
    by (simp add: websocket_user_def assms(1) split: prod.splits)
  also have "\<dots> = drop (length (samples lib evs) - 200) (samples lib evs)"
    using user_loop_history[OF assms(3), of "connect username websocket w" username] c
    by (simp add: Let_def)
  finally have e: "history_of (fst (snd (websocket_user lib websocket token evs w))) username =
     drop (length evs - 200) (samples lib evs)" by (simp add: n)
  show ?thesis unfolding e using n by (auto simp: min_def)
qed



lemmas demo_simps =
  demo_env_def demo_loads_def demo_float_def demo_decode_def demo_users_def
  verify_token_def read_position_def dict_get_def

theorem history_buffer_keeps_last_200_witness:
  \<open>history_of (fst (snd (websocket_user demo_env 5 ''token-u1''
       [Message ''{"lat": 37.1, "lon": -122.2}'' 100 always,
        Message ''{"lat": 40, "lon": 3.5}'' 101 always]
       (startup demo_users [])))) ''u1''
     = [\<lparr>lat = 37.1, lon = - 122.2, ts = 100\<rparr>, \<lparr>lat = 40, lon = 3.5, ts = 101\<rparr>]\<close>
proof -
  have v: "verify_token demo_env ''token-u1'' = Inr ''u1''"
    by (simp add: demo_simps)
  have h: "history_of (startup demo_users []) ''u1'' = []"
    by (simp add: startup_def history_of_def)
  have a: \<open>list_all (\<lambda>ev. sample_of demo_env ev \<noteq> None)
       [Message ''{"lat": 37.1, "lon": -122.2}'' 100 always,
        Message ''{"lat": 40, "lon": 3.5}'' 101 always]\<close>
    by (simp add: sample_of_def demo_simps)
  from history_buffer_keeps_last_200[OF v h a, of 5] show ?thesis
    by (simp add: samples_def List.map_filter_simps sample_of_def demo_simps)
qed

section \<open>The latest position\<close>

lemma latest_record_sample:
  "latest (record_sample v s w) u = (if v = u then Some s else latest w u)"
  by (simp add: record_sample_def Let_def)

lemma latest_disconnect: "latest (disconnect v w) = latest w"
  by (simp add: disconnect_def)

lemma history_disconnect: "history (disconnect v w) = history w"
  by (simp add: disconnect_def)

lemma latest_after_event:
  "latest (fst (snd (user_loop lib v [ev] w))) u =
     (if v = u then (case sample_of lib ev of None \<Rightarrow> latest w u | Some s \<Rightarrow> Some s)
      else latest w u)"
proof (cases ev)
  case ReceiveError
  then show ?thesis by (simp add: sample_of_def latest_disconnect)
next
  case (Message data now ok)
  show ?thesis
  proof (cases "read_position lib data")
    case (Inl e)
    then show ?thesis
      by (simp add: Message sample_of_def ingest_def latest_disconnect)
  next
    case (Inr ab)
    obtain a b where ab: "ab = (a, b)" by (cases ab)
    from ingest_valid[of lib data a b v now ok w] Inr ab obtain w' out where
      ing: "ingest lib v data now ok w = Inr (w', out)" and
      l: "latest w' = latest (record_sample v \<lparr>lat = a, lon = b, ts = now\<rparr> w)" by blast
    show ?thesis
      by (simp add: Message ing l latest_record_sample sample_of_def Inr ab)
  qed
qed

lemma samples_for_Cons:
  "samples_for lib u ((v, ev) # rest) =
     (if v = u then (case sample_of lib ev of None \<Rightarrow> samples_for lib u rest
                     | Some s \<Rightarrow> s # samples_for lib u rest)
      else samples_for lib u rest)"
  by (simp add: samples_for_def List.map_filter_simps split: option.splits)

text \<open>
  C4. After any interleaving of the iterations of any identities, the entry of
  \<open>latest\<close> for an identity is the last sample recorded for it (and the entry it had
  before when none was recorded).
\<close>

theorem latest_is_most_recent_sample:
  "latest (run_schedule lib sched w) username =
     (if samples_for lib username sched = [] then latest w username
      else Some (last (samples_for lib username sched)))"
proof (induction sched arbitrary: w)
  case Nil
  then show ?case by (simp add: samples_for_def List.map_filter_simps)
next
  case (Cons x sched)
  obtain v ev where x: "x = (v, ev)" by (cases x)
  show ?case
    unfolding x run_schedule.simps Cons.IH samples_for_Cons latest_after_event
    by (simp split: option.splits)
qed

section \<open>The broadcast\<close>

lemma filter_remove1_rejected: "\<not> P y \<Longrightarrow> filter P (remove1 y xs) = filter P xs"
  by (induction xs) auto

lemma count_remove1:
  "count_list (remove1 y xs) v = (if v = y \<and> y \<in> set xs then count_list xs v - 1 else count_list xs v)"
  by (induction xs) auto

lemma broadcast_fst:
  "(\<And>v. \<not> ok v \<Longrightarrow> count_list ys v = count_list xs v) \<Longrightarrow>
   fst (broadcast ok msg ys xs) = filter ok xs"
proof (induction ys arbitrary: xs)
  case Nil
  have "\<And>v. v \<in> set xs \<Longrightarrow> ok v"
  proof (rule ccontr)
    fix v assume "v \<in> set xs" "\<not> ok v"
    with Nil[of v] show False by (simp add: count_list_0_iff)
  qed
  then show ?case by simp
next
  case (Cons y ys)
  show ?case
  proof (cases "ok y")
    case True
    have "\<And>v. \<not> ok v \<Longrightarrow> count_list ys v = count_list xs v"
      using Cons.prems True by (metis count_list.simps(2))
    from Cons.IH[OF this] True show ?thesis by (simp add: case_prod_unfold)
  next
    case False
    have yin: "y \<in> set xs"
      using Cons.prems[OF False] by (metis count_list.simps(2) count_list_0_iff nat.simps(3) Suc_eq_plus1)
    have "count_list ys v = count_list (remove1 y xs) v" if nv: "\<not> ok v" for v
    proof -
      from Cons.prems[OF nv] have "count_list (y # ys) v = count_list xs v" .
      then show ?thesis using yin by (cases "v = y") (simp_all add: count_remove1)
    qed
    from Cons.IH[OF this] False show ?thesis
      by (simp add: case_prod_unfold filter_remove1_rejected)
  qed
qed

lemma broadcast_result:
  "broadcast ok msg admins admins = (filter ok admins, map (\<lambda>x. SendText x msg) admins)"
  using broadcast_fst[of ok admins admins msg] broadcast_snd[of ok msg admins admins]
  by (simp add: prod_eq_iff)


text \<open>
  C3. In one broadcast every admin of the list is sent the message, whatever happened
  to the sends before; the admins whose send failed, and no other, leave the list; and
  the iteration of the sender ends normally, its connection still registered and its
  loop still running.
\<close>

theorem failed_send_removes_only_that_admin:
  assumes "read_position lib data = Inr (a, b)"
  shows "broadcast ok msg admins admins = (filter ok admins, map (\<lambda>x. SendText x msg) admins) \<and>
         (case user_loop lib username [Message data now ok] w of
            (p, w', out) \<Rightarrow>
              p = Streaming \<and>
              admin_connections w' = filter ok (admin_connections w) \<and>
              out = map (\<lambda>x. SendText x (update_payload username a b now)) (admin_connections w) \<and>
              active_connections w' = active_connections w)"
proof -
  have "ingest lib username data now ok w =
      Inr ((add_location username a b now
             (record_sample username \<lparr>lat = a, lon = b, ts = now\<rparr> w))
             \<lparr>admin_connections := filter ok (admin_connections w)\<rparr>,
           map (\<lambda>x. SendText x (update_payload username a b now)) (admin_connections w))"
    by (simp add: ingest_def assms Let_def broadcast_result add_location_def record_sample_def)
  then show ?thesis
    by (simp add: broadcast_result add_location_def record_sample_def Let_def)
qed

theorem failed_send_removes_only_that_admin_witness:
  \<open>broadcast all_but_8 (JStr ''m'' :: real json) [7, 8, 9] [7, 8, 9] =
      ([7, 9], [SendText 7 (JStr ''m''), SendText 8 (JStr ''m''), SendText 9 (JStr ''m'')]) \<and>
    fst (user_loop demo_env ''u1'' [Message ''{"lat": 37.1, "lon": -122.2}'' 100 all_but_8]
      ((startup demo_users []) \<lparr>active_connections := [''u1'' \<mapsto> 5], admin_connections := [7, 8, 9]\<rparr>))
      = Streaming \<and>
    admin_connections (fst (snd (user_loop demo_env ''u1''
      [Message ''{"lat": 37.1, "lon": -122.2}'' 100 all_but_8]
      ((startup demo_users []) \<lparr>active_connections := [''u1'' \<mapsto> 5], admin_connections := [7, 8, 9]\<rparr>))))
      = [7, 9] \<and>
    active_connections (fst (snd (user_loop demo_env ''u1''
      [Message ''{"lat": 37.1, "lon": -122.2}'' 100 all_but_8]
      ((startup demo_users []) \<lparr>active_connections := [''u1'' \<mapsto> 5], admin_connections := [7, 8, 9]\<rparr>))))
      ''u1'' = Some 5\<close>
proof -
  have r: \<open>read_position demo_env ''{"lat": 37.1, "lon": -122.2}'' = Inr (37.1, - 122.2)\<close>
    by (simp add: demo_simps)
  from failed_send_removes_only_that_admin[OF r, where ok = all_but_8 and msg = "JStr ''m'' :: real json"
      and admins = "[7, 8, 9]" and username = "''u1''" and now = 100
      and w = "(startup demo_users []) \<lparr>active_connections := [''u1'' \<mapsto> 5], admin_connections := [7, 8, 9]\<rparr>"]
  show ?thesis
    by (simp add: all_but_8_def startup_def split: prod.splits)
qed


section \<open>What one sample produces\<close>

text \<open>
  C2, as amended. Every text that is accepted, \<open>float\<close> turning its \<open>lat\<close> into \<open>a\<close>
  and its \<open>lon\<close> into \<open>b\<close> (from a JSON float, an int, a bool or a numeric string),
  taken at time \<open>now\<close> for the identity \<open>username\<close>, makes one \<open>send_text\<close> per admin
  of the list, each of the dict with the keys \<open>type\<close>, \<open>username\<close>, \<open>lat\<close>, \<open>lon\<close>,
  \<open>ts\<close> (the identity is under the key \<open>username\<close>), and adds exactly one row, with
  the same values, to \<open>locations\<close>.
\<close>

theorem sample_is_broadcast_and_stored_once:
  assumes "read_position lib data = Inr (a, b)"
  shows "(case ingest lib username data now ok w of
            Inl e \<Rightarrow> False
          | Inr (w', out) \<Rightarrow>
              out = map (\<lambda>x. SendText x
                      (JObj [(''type'', JStr ''update''), (''username'', JStr username),
                             (''lat'', JFloat a), (''lon'', JFloat b), (''ts'', JInt now)]))
                      (admin_connections w) \<and>
              locations w' = locations w @
                [\<lparr>l_username = username, l_lat = a, l_lon = b, l_timestamp = now\<rparr>])"
  using ingest_valid[OF assms, of username now ok w]
  by (auto simp: update_payload_def)

theorem sample_is_broadcast_and_stored_once_witness:
  \<open>ingest demo_env ''u1'' ''{"lat": 37.1, "lon": -122.2}'' 1700000000 always
      ((startup demo_users []) \<lparr>admin_connections := [7, 9]\<rparr>) =
    Inr ((startup demo_users [])
          \<lparr>latest := [''u1'' \<mapsto> \<lparr>lat = 37.1, lon = - 122.2, ts = 1700000000\<rparr>],
           history := [''u1'' \<mapsto> [\<lparr>lat = 37.1, lon = - 122.2, ts = 1700000000\<rparr>]],
           admin_connections := [7, 9],
           locations := [\<lparr>l_username = ''u1'', l_lat = 37.1, l_lon = - 122.2,
                          l_timestamp = 1700000000\<rparr>]\<rparr>,
         [SendText 7 (JObj [(''type'', JStr ''update''), (''username'', JStr ''u1''),
                            (''lat'', JFloat 37.1), (''lon'', JFloat (- 122.2)),
                            (''ts'', JInt 1700000000)]),
          SendText 9 (JObj [(''type'', JStr ''update''), (''username'', JStr ''u1''),
                            (''lat'', JFloat 37.1), (''lon'', JFloat (- 122.2)),
                            (''ts'', JInt 1700000000)])]) \<and>
   ingest demo_env ''u1'' ''{"lat": 40, "lon": 3.5}'' 1700000001 always
      ((startup demo_users []) \<lparr>admin_connections := [7]\<rparr>) =
    Inr ((startup demo_users [])
          \<lparr>latest := [''u1'' \<mapsto> \<lparr>lat = 40, lon = 3.5, ts = 1700000001\<rparr>],
           history := [''u1'' \<mapsto> [\<lparr>lat = 40, lon = 3.5, ts = 1700000001\<rparr>]],
           admin_connections := [7],
           locations := [\<lparr>l_username = ''u1'', l_lat = 40, l_lon = 3.5,
                          l_timestamp = 1700000001\<rparr>]\<rparr>,
         [SendText 7 (JObj [(''type'', JStr ''update''), (''username'', JStr ''u1''),
                            (''lat'', JFloat 40), (''lon'', JFloat 3.5),
                            (''ts'', JInt 1700000001)])])\<close>
proof -
  have f: \<open>read_position demo_env ''{"lat": 37.1, "lon": -122.2}'' = Inr (37.1, - 122.2)\<close>
    by (simp add: demo_simps)
  have i: \<open>read_position demo_env ''{"lat": 40, "lon": 3.5}'' = Inr (40, 3.5)\<close>
    by (simp add: demo_simps)
  from sample_is_broadcast_and_stored_once[OF f, where username = "''u1''"
        and now = 1700000000 and ok = always
        and w = "(startup demo_users []) \<lparr>admin_connections := [7, 9]\<rparr>"]
       sample_is_broadcast_and_stored_once[OF i, where username = "''u1''"
        and now = 1700000001 and ok = always
        and w = "(startup demo_users []) \<lparr>admin_connections := [7]\<rparr>"]
  show ?thesis
    by (simp add: ingest_def f i Let_def record_sample_def add_location_def
        update_payload_def history_of_def startup_def always_def)
qed

text \<open>
  The message of the claim, with the identity under the key \<open>identity\<close>, is not the
  one sent: for the sample of the specification's example, from \<open>u1\<close>, the admin 7 is
  sent a dict that has the key \<open>username\<close> and no key \<open>identity\<close>.
\<close>

theorem update_message_identity_key_counterexample:
  \<open>map_sum id snd (ingest demo_env ''u1'' ''{"lat": 37.1, "lon": -122.2}'' 1700000000 always
      ((startup demo_users []) \<lparr>admin_connections := [7]\<rparr>)) \<noteq>
    Inr [SendText 7 (JObj [(''type'', JStr ''update''), (''identity'', JStr ''u1''),
                           (''lat'', JFloat 37.1), (''lon'', JFloat (- 122.2)),
                           (''ts'', JInt 1700000000)])]\<close>
  by (simp add: ingest_def demo_simps Let_def record_sample_def add_location_def
      update_payload_def history_of_def startup_def always_def)


section \<open>Admission\<close>

text \<open>
  C5. A token that verifies to an identity with no row in \<open>users\<close>, or with a row whose
  \<open>is_admin\<close> is 0, is refused by the admin handler: the connection is closed with code
  1008 (policy violation) and the state, the list of admins included, is left as it
  was. The user handler accepts the same token and registers the connection.
\<close>

theorem admin_entry_rejects_non_admin:
  assumes "verify_token lib token = Inr username"
      and "(case find (\<lambda>u. u_username u = username) (users w) of
              None \<Rightarrow> True
            | Some usr \<Rightarrow> u_is_admin usr = 0)"
  shows "websocket_admin lib websocket token evs w = (w, [Close websocket 1008]) \<and>
         websocket_user lib websocket token [] w =
           (Streaming, connect username websocket w, [Accept websocket])"
  using assms
  by (auto simp: websocket_admin_def websocket_user_def split: option.splits)

theorem admin_entry_rejects_non_admin_witness:
  "websocket_admin demo_env 7 ''token-u1'' [AdminText ''x'', AdminDisconnect]
       (startup demo_users []) = (startup demo_users [], [Close 7 1008]) \<and>
   websocket_admin demo_env 7 ''token-ghost'' [AdminText ''x'']
       (startup demo_users []) = (startup demo_users [], [Close 7 1008]) \<and>
   websocket_user demo_env 7 ''token-u1'' [] (startup demo_users []) =
       (Streaming, connect ''u1'' 7 (startup demo_users []), [Accept 7])"
proof -
  have v1: "verify_token demo_env ''token-u1'' = Inr ''u1''"
    by (simp add: demo_simps)
  have v2: "verify_token demo_env ''token-ghost'' = Inr ''ghost''"
    by (simp add: demo_simps)
  have r1: "(case find (\<lambda>u. u_username u = ''u1'') (users (startup demo_users [] :: real world)) of
              None \<Rightarrow> True | Some usr \<Rightarrow> u_is_admin usr = 0)"
    by (simp add: startup_def demo_users_def)
  have r2: "(case find (\<lambda>u. u_username u = ''ghost'') (users (startup demo_users [] :: real world)) of
              None \<Rightarrow> True | Some usr \<Rightarrow> u_is_admin usr = 0)"
    by (simp add: startup_def demo_users_def)
  from admin_entry_rejects_non_admin[OF v1 r1, of 7 "[AdminText ''x'', AdminDisconnect]"]
       admin_entry_rejects_non_admin[OF v2 r2, of 7 "[AdminText ''x'']"]
  show ?thesis by simp
qed

text \<open>
  C9. A token that decodes (its signature verifies) to claims without \<open>sub\<close> is refused
  by \<open>verify_token\<close> with status 401; the two WebSocket handlers then close with code
  1008 and the query raises, each leaving the state as it was.
\<close>

theorem token_without_sub_is_rejected:
  assumes "jwt_decode lib token = Some payload"
      and "map_of payload ''sub'' = None"
  shows "verify_token lib token = Inl (HTTPException 401) \<and>
         websocket_user lib websocket token evs w = (Closed, w, [Close websocket 1008]) \<and>
         websocket_admin lib websocket token aevs w = (w, [Close websocket 1008]) \<and>
         get_history lib username token w = Inl (HTTPException 401)"
  using assms
  by (simp add: verify_token_def websocket_user_def websocket_admin_def get_history_def)

theorem token_without_sub_is_rejected_witness:
  \<open>verify_token demo_env ''token-nosub'' = Inl (HTTPException 401) \<and>
   websocket_user demo_env 5 ''token-nosub'' [Message ''{"lat": 37.1, "lon": -122.2}'' 100 always]
       (startup demo_users []) = (Closed, startup demo_users [], [Close 5 1008]) \<and>
   websocket_admin demo_env 5 ''token-nosub'' [AdminDisconnect] (startup demo_users []) =
       (startup demo_users [], [Close 5 1008]) \<and>
   get_history demo_env ''u1'' ''token-nosub'' (startup demo_users []) = Inl (HTTPException 401)\<close>
proof -
  have d: "jwt_decode demo_env ''token-nosub'' =
      Some [(''is_admin'', JInt 1), (''exp'', JInt 1700086400)]"
    by (simp add: demo_env_def demo_decode_def)
  have m: "map_of [(''is_admin'', JInt 1), (''exp'', JInt 1700086400 :: real json)] ''sub'' = None"
    by simp
  from token_without_sub_is_rejected[OF d m] show ?thesis by simp
qed


section \<open>Malformed input and disconnection\<close>


lemma disconnect_active:
  "active_connections (disconnect username w) = (active_connections w)(username := None)"
  by (auto simp: disconnect_def fun_eq_iff domIff)

lemma disconnect_frame:
  "disconnect username w =
     w\<lparr>active_connections := (active_connections w)(username := None)\<rparr>"
proof (cases "username \<in> dom (active_connections w)")
  case True
  then show ?thesis by (simp add: disconnect_def)
next
  case False
  then have "(active_connections w)(username := None) = active_connections w"
    by (simp add: domIff fun_upd_idem)
  with False show ?thesis by (simp add: disconnect_def)
qed




text \<open>
  C7. \<open>disconnect\<close> removes the entry of the identity from \<open>active_connections\<close> and
  changes nothing else of the state; \<open>connect\<close> sets that entry to the new connection,
  whether or not one was there (a map has at most one entry per identity), and changes
  nothing else. So after a disconnection and a reconnection the state is the one before
  with the entry of the identity set to the new connection: \<open>latest\<close>, \<open>history\<close>, the
  list of admins and the tables are as they were. An exception out of \<open>receive_text\<close>
  does exactly that disconnection.
\<close>

theorem reconnect_replaces_session_only:
  "disconnect username w =
     w\<lparr>active_connections := (active_connections w)(username := None)\<rparr> \<and>
   connect username fresh w =
     w\<lparr>active_connections := (active_connections w)(username \<mapsto> fresh)\<rparr> \<and>
   connect username fresh (disconnect username w) =
     w\<lparr>active_connections := (active_connections w)(username \<mapsto> fresh)\<rparr> \<and>
   active_connections (disconnect username w) = (active_connections w)(username := None) \<and>
   latest (disconnect username w) = latest w \<and>
   history (disconnect username w) = history w \<and>
   admin_connections (disconnect username w) = admin_connections w \<and>
   users (disconnect username w) = users w \<and>
   locations (disconnect username w) = locations w \<and>
   active_connections (connect username fresh w) = (active_connections w)(username \<mapsto> fresh) \<and>
   active_connections (connect username fresh (disconnect username w)) =
     (active_connections w)(username \<mapsto> fresh) \<and>
   latest (connect username fresh (disconnect username w)) = latest w \<and>
   history (connect username fresh (disconnect username w)) = history w \<and>
   user_loop lib username (ReceiveError # evs) w = (Closed, disconnect username w, [])"
proof -
  have d: "disconnect username w =
     w\<lparr>active_connections := (active_connections w)(username := None)\<rparr>"
    by (rule disconnect_frame)
  have c: "connect username fresh (disconnect username w) =
     w\<lparr>active_connections := (active_connections w)(username \<mapsto> fresh)\<rparr>"
    unfolding d by (simp add: connect_def)
  have f: "admin_connections (disconnect username w) = admin_connections w"
    "users (disconnect username w) = users w"
    "locations (disconnect username w) = locations w"
    unfolding d by simp_all
  show ?thesis
    using d c f
    by (simp add: disconnect_active latest_disconnect history_disconnect connect_def)
qed

theorem reconnect_replaces_session_only_witness:
  "connect ''u1'' 6 (disconnect ''u1''
        ((startup demo_users [])
           \<lparr>active_connections := [''u2'' \<mapsto> 4, ''u1'' \<mapsto> 5],
            latest := [''u1'' \<mapsto> \<lparr>lat = 40, lon = 3.5, ts = 99\<rparr>],
            history := [''u1'' \<mapsto> [\<lparr>lat = 40, lon = 3.5 :: real, ts = 99\<rparr>]],
            admin_connections := [7, 9]\<rparr>))
     = (startup demo_users [])
           \<lparr>active_connections := [''u2'' \<mapsto> 4, ''u1'' \<mapsto> 6],
            latest := [''u1'' \<mapsto> \<lparr>lat = 40, lon = 3.5, ts = 99\<rparr>],
            history := [''u1'' \<mapsto> [\<lparr>lat = 40, lon = 3.5 :: real, ts = 99\<rparr>]],
            admin_connections := [7, 9]\<rparr>"
proof -
  let ?w = "(startup demo_users [])
           \<lparr>active_connections := [''u2'' \<mapsto> 4, ''u1'' \<mapsto> 5],
            latest := [''u1'' \<mapsto> \<lparr>lat = 40, lon = 3.5, ts = 99\<rparr>],
            history := [''u1'' \<mapsto> [\<lparr>lat = 40, lon = 3.5 :: real, ts = 99\<rparr>]],
            admin_connections := [7, 9]\<rparr>"
  have "connect ''u1'' 6 (disconnect ''u1'' ?w) =
          ?w\<lparr>active_connections := (active_connections ?w)(''u1'' \<mapsto> 6)\<rparr>"
    using reconnect_replaces_session_only[where username = "''u1''" and fresh = 6 and w = ?w,
        THEN conjunct2, THEN conjunct2, THEN conjunct1] .
  then show ?thesis by (simp add: startup_def)
qed

section \<open>Numeric strings\<close>

text \<open>
  C10. A text whose \<open>lat\<close> and \<open>lon\<close> are strings that \<open>float\<close> reads is accepted:
  the iteration records the converted sample as the latest position and as the last
  entry of the buffer, stores its row, sends the update to every admin of the list, and
  the loop goes on.
\<close>

theorem numeric_strings_are_accepted:
  assumes "json_loads lib data = Some (JObj kvs)"
      and "map_of kvs ''lat'' = Some (JStr s1)"
      and "map_of kvs ''lon'' = Some (JStr s2)"
      and "str_to_float lib s1 = Some a"
      and "str_to_float lib s2 = Some b"
  shows "(case user_loop lib username [Message data now ok] w of
            (p, w', out) \<Rightarrow>
              p = Streaming \<and>
              latest w' username = Some \<lparr>lat = a, lon = b, ts = now\<rparr> \<and>
              last (history_of w' username) = \<lparr>lat = a, lon = b, ts = now\<rparr> \<and>
              locations w' = locations w @
                [\<lparr>l_username = username, l_lat = a, l_lon = b, l_timestamp = now\<rparr>] \<and>
              out = map (\<lambda>x. SendText x (update_payload username a b now)) (admin_connections w) \<and>
              active_connections w' = active_connections w)"
proof -
  let ?s = "\<lparr>lat = a, lon = b, ts = now\<rparr>"
  have r: "read_position lib data = Inr (a, b)"
    using assms by (simp add: read_position_def dict_get_def)
  from ingest_valid[OF r, of username now ok w] obtain w' where
    ing: "ingest lib username data now ok w =
            Inr (w', map (\<lambda>x. SendText x (update_payload username a b now)) (admin_connections w))"
    and h: "history w' = history (record_sample username ?s w)"
    and l: "latest w' = latest (record_sample username ?s w)"
    and ac: "active_connections w' = active_connections w"
    and lo: "locations w' = locations w @
                [\<lparr>l_username = username, l_lat = a, l_lon = b, l_timestamp = now\<rparr>]"
    by blast
  have "history_of w' username = history_of (record_sample username ?s w) username"
    using h by (simp add: history_of_def)
  then have hl: "last (history_of w' username) = ?s"
    by (cases "history_of w username") (simp_all add: history_of_record_sample)
  show ?thesis
    by (simp add: ing l latest_record_sample hl lo ac)
qed

theorem numeric_strings_are_accepted_witness:
  \<open>user_loop demo_env ''u1'' [Message ''{"lat": "37.1", "lon": "-122.2"}'' 100 always]
      ((startup demo_users []) \<lparr>active_connections := [''u1'' \<mapsto> 5], admin_connections := [7]\<rparr>) =
    (Streaming,
     (startup demo_users [])
       \<lparr>active_connections := [''u1'' \<mapsto> 5],
        latest := [''u1'' \<mapsto> \<lparr>lat = 37.1, lon = - 122.2, ts = 100\<rparr>],
        history := [''u1'' \<mapsto> [\<lparr>lat = 37.1, lon = - 122.2, ts = 100\<rparr>]],
        admin_connections := [7],
        locations := [\<lparr>l_username = ''u1'', l_lat = 37.1, l_lon = - 122.2, l_timestamp = 100\<rparr>]\<rparr>,
     [SendText 7 (JObj [(''type'', JStr ''update''), (''username'', JStr ''u1''),
                        (''lat'', JFloat 37.1), (''lon'', JFloat (- 122.2)), (''ts'', JInt 100)])])\<close>
proof -
  have l: \<open>json_loads demo_env ''{"lat": "37.1", "lon": "-122.2"}'' =
      Some (JObj [(''lat'', JStr ''37.1''), (''lon'', JStr ''-122.2'')])\<close>
    by (simp add: demo_simps)
  have a: "map_of [(''lat'', JStr ''37.1''), (''lon'', JStr ''-122.2'' :: real json)] ''lat'' = Some (JStr ''37.1'')"
    by simp
  have b: "map_of [(''lat'', JStr ''37.1''), (''lon'', JStr ''-122.2'' :: real json)] ''lon'' = Some (JStr ''-122.2'')"
    by simp
  have fa: "str_to_float demo_env ''37.1'' = Some 37.1"
    by (simp add: demo_simps)
  have fb: "str_to_float demo_env ''-122.2'' = Some (- 122.2)"
    by (simp add: demo_simps)
  from numeric_strings_are_accepted[OF l a b fa fb, where username = "''u1''" and now = 100
      and ok = always
      and w = "(startup demo_users []) \<lparr>active_connections := [''u1'' \<mapsto> 5], admin_connections := [7]\<rparr>"]
  show ?thesis
    by (simp add: ingest_def demo_simps Let_def record_sample_def add_location_def
        update_payload_def history_of_def startup_def always_def)
qed


section \<open>The history query\<close>

lemma demo_order_mset: "mset (order_by_timestamp_desc demo_env rs) = mset rs"
  by (simp add: demo_env_def demo_order_def)

lemma demo_order_sorted:
  "sorted_wrt (\<lambda>r q. l_timestamp q \<le> l_timestamp r) (order_by_timestamp_desc demo_env rs)"
proof -
  have "sorted (map l_timestamp (sort_key l_timestamp rs))" by simp
  then have "sorted (rev (map l_timestamp (rev (sort_key l_timestamp rs))))"
    by (simp add: rev_map)
  then have "sorted_wrt (\<lambda>x y. y \<le> x) (map l_timestamp (rev (sort_key l_timestamp rs)))"
    by (simp add: sorted_wrt_rev)
  then show ?thesis
    by (simp add: demo_env_def demo_order_def sorted_wrt_map)
qed

lemma verify_token_error: "verify_token lib token = Inl e \<Longrightarrow> e = HTTPException 401"
  by (auto simp: verify_token_def split: option.splits json.splits)

text \<open>
  C8. The query verifies the token first: when \<open>verify_token\<close> refuses it, the query
  raises that exception (status 401) and returns no row. When the token verifies, to
  any identity at all, then, whatever sorted permutation the engine returns for
  \<open>ORDER BY timestamp DESC\<close>, the query returns the dicts \<open>{lat, lon, ts}\<close> of rows of
  the queried identity: at most 200 of them (all when there are fewer), newest first,
  and none of the rows left out is newer than a row returned. The table \<open>users\<close>, where
  the admin role is kept, is not consulted.
\<close>

theorem get_history_returns_newest_200:
  assumes "\<And>rs. mset (order_by_timestamp_desc lib rs) = mset rs"
      and "\<And>rs. sorted_wrt (\<lambda>r q. l_timestamp q \<le> l_timestamp r) (order_by_timestamp_desc lib rs)"
  shows "(case verify_token lib token of
            Inl e \<Rightarrow>
              e = HTTPException 401 \<and>
              get_history lib username token w = Inl (HTTPException 401)
          | Inr caller \<Rightarrow>
              (\<exists>rows rest.
                 get_history lib username token w =
                   Inr (map (\<lambda>r. \<lparr>lat = l_lat r, lon = l_lon r, ts = l_timestamp r\<rparr>) rows) \<and>
                 mset (rows @ rest) = mset (filter (\<lambda>r. l_username r = username) (locations w)) \<and>
                 length rows = min 200 (length (filter (\<lambda>r. l_username r = username) (locations w))) \<and>
                 sorted_wrt (\<lambda>r q. l_timestamp q \<le> l_timestamp r) rows \<and>
                 (\<forall>r \<in> set rows. \<forall>q \<in> set rest. l_timestamp q \<le> l_timestamp r) \<and>
                 get_history lib username token (w\<lparr>users := us\<rparr>) =
                   get_history lib username token w))"
proof (cases "verify_token lib token")
  case (Inl e)
  from verify_token_error[OF Inl] have "e = HTTPException 401" .
  with Inl show ?thesis by (simp add: get_history_def)
next
  case (Inr caller)
  let ?m = "filter (\<lambda>r. l_username r = username) (locations w)"
  let ?o = "order_by_timestamp_desc lib ?m"
  let ?rows = "take 200 ?o" and ?rest = "drop 200 ?o"
  have g: "get_history lib username token w =
             Inr (map (\<lambda>r. \<lparr>lat = l_lat r, lon = l_lon r, ts = l_timestamp r\<rparr>) ?rows)"
    by (simp add: get_history_def Inr)
  have m: "mset (?rows @ ?rest) = mset ?m"
    by (simp add: assms(1))
  have "length ?o = length ?m"
    using assms(1)[of ?m] by (rule mset_eq_length)
  then have n: "length ?rows = min 200 (length ?m)"
    by (simp add: min.commute)
  have so: "sorted_wrt (\<lambda>r q. l_timestamp q \<le> l_timestamp r) (?rows @ ?rest)"
    using assms(2)[of ?m] by simp
  then have s: "sorted_wrt (\<lambda>r q. l_timestamp q \<le> l_timestamp r) ?rows"
    and c: "\<forall>r \<in> set ?rows. \<forall>q \<in> set ?rest. l_timestamp q \<le> l_timestamp r"
    unfolding sorted_wrt_append by blast+
  have u: "get_history lib username token (w\<lparr>users := us\<rparr>) = get_history lib username token w"
    by (simp add: get_history_def Inr)
  from g m n s c u have
    "\<exists>rows rest.
       get_history lib username token w =
         Inr (map (\<lambda>r. \<lparr>lat = l_lat r, lon = l_lon r, ts = l_timestamp r\<rparr>) rows) \<and>
       mset (rows @ rest) = mset ?m \<and>
       length rows = min 200 (length ?m) \<and>
       sorted_wrt (\<lambda>r q. l_timestamp q \<le> l_timestamp r) rows \<and>
       (\<forall>r \<in> set rows. \<forall>q \<in> set rest. l_timestamp q \<le> l_timestamp r) \<and>
       get_history lib username token (w\<lparr>users := us\<rparr>) = get_history lib username token w"
    by blast
  then show ?thesis by (simp add: Inr)
qed

theorem get_history_returns_newest_200_witness:
  "get_history demo_env ''u1'' ''token-u1''
     (startup demo_users
        [\<lparr>l_username = ''u1'', l_lat = 1, l_lon = 2, l_timestamp = 100\<rparr>,
         \<lparr>l_username = ''u2'', l_lat = 3, l_lon = 4, l_timestamp = 101\<rparr>,
         \<lparr>l_username = ''u1'', l_lat = 5, l_lon = 6, l_timestamp = 102\<rparr>]) =
   Inr [\<lparr>lat = 5, lon = 6, ts = 102\<rparr>, \<lparr>lat = 1, lon = 2, ts = 100\<rparr>] \<and>
   get_history demo_env ''u1'' ''token-forged''
     (startup demo_users
        [\<lparr>l_username = ''u1'', l_lat = 1, l_lon = 2, l_timestamp = 100\<rparr>,
         \<lparr>l_username = ''u2'', l_lat = 3, l_lon = 4, l_timestamp = 101\<rparr>,
         \<lparr>l_username = ''u1'', l_lat = 5, l_lon = 6, l_timestamp = 102\<rparr>]) =
   Inl (HTTPException 401)"
proof -
  let ?w = "startup demo_users
        [\<lparr>l_username = ''u1'', l_lat = 1, l_lon = 2, l_timestamp = 100\<rparr>,
         \<lparr>l_username = ''u2'', l_lat = 3, l_lon = 4, l_timestamp = 101\<rparr>,
         \<lparr>l_username = ''u1'', l_lat = 5, l_lon = 6, l_timestamp = 102\<rparr>] :: real world"
  have v: "verify_token demo_env ''token-u1'' = Inr ''u1''"
    by (simp add: demo_simps)
  have x: "verify_token demo_env ''token-forged'' = Inl (HTTPException 401)"
    by (simp add: demo_simps)
  have o: "order_by_timestamp_desc demo_env = demo_order"
    by (simp add: demo_env_def)
  have e: "get_history demo_env ''u1'' ''token-u1'' ?w =
      Inr [\<lparr>lat = 5, lon = 6, ts = 102\<rparr>, \<lparr>lat = 1, lon = 2, ts = 100\<rparr>]"
    by (simp add: get_history_def v o startup_def demo_order_def)
  from get_history_returns_newest_200[OF demo_order_mset demo_order_sorted,
      where token = "''token-forged''" and username = "''u1''" and w = ?w]
  have r: "get_history demo_env ''u1'' ''token-forged'' ?w = Inl (HTTPException 401)"
    by (simp add: x)
  from get_history_returns_newest_200[OF demo_order_mset demo_order_sorted,
      where token = "''token-u1''" and username = "''u1''" and us = "[]" and w = ?w] e r
  show ?thesis by (simp add: v)
qed

end
